theory Spec2Isabelle
  imports Main
begin

section \<open>Python strings\<close>

text \<open>
  A Python \<^verbatim>\<open>str\<close> is a sequence of Unicode code points, and the bot's literals hold
  characters beyond ASCII (the check mark, the floppy disk, the en dash). A string is
  therefore a list of code points; \<open>str ''abc''\<close> is the ASCII literal \<^verbatim>\<open>"abc"\<close>.
\<close>

type_synonym codepoint = nat
type_synonym pystr = "codepoint list"

abbreviation str :: "string \<Rightarrow> pystr" where
  "str s \<equiv> map of_char s"

text \<open>\<^verbatim>\<open>s.replace(old, new)\<close> for one-character \<open>old\<close> and \<open>new\<close>: every occurrence.\<close>

definition replace_char :: "codepoint \<Rightarrow> codepoint \<Rightarrow> pystr \<Rightarrow> pystr" where
  "replace_char old new s = map (\<lambda>c. if c = old then new else c) s"

text \<open>\<^verbatim>\<open>s.startswith(p)\<close>.\<close>

definition startswith :: "pystr \<Rightarrow> pystr \<Rightarrow> bool" where
  "startswith s p = (take (length p) s = p)"

text \<open>
  \<^verbatim>\<open>s.split(":", 1)\<close>: at most one split, at the first colon (code point 58); a string
  with no colon comes back alone.
\<close>

definition split_colon_1 :: "pystr \<Rightarrow> pystr list" where
  "split_colon_1 s =
     (if 58 \<in> set s
      then [takeWhile (\<lambda>c. c \<noteq> 58) s, tl (dropWhile (\<lambda>c. c \<noteq> 58) s)]
      else [s])"

datatype error = PersistenceError | TranscriptionError | IndexError

text \<open>\<^verbatim>\<open>xs[1]\<close>, which raises IndexError on a list shorter than two.\<close>

definition index_1 :: "'a list \<Rightarrow> error + 'a" where
  "index_1 xs = (case xs of x # y # _ \<Rightarrow> Inr y | _ \<Rightarrow> Inl IndexError)"

text \<open>
  The code points \<^verbatim>\<open>str.strip()\<close> removes: those for which CPython's
  \<^verbatim>\<open>str.isspace\<close> holds.
\<close>

definition is_whitespace :: "codepoint \<Rightarrow> bool" where
  "is_whitespace c =
     ((9 \<le> c \<and> c \<le> 13) \<or> (28 \<le> c \<and> c \<le> 32) \<or> c = 133 \<or> c = 160 \<or> c = 5760 \<or>
      (8192 \<le> c \<and> c \<le> 8202) \<or> c = 8232 \<or> c = 8233 \<or> c = 8239 \<or> c = 8287 \<or>
      c = 12288)"

definition strip :: "pystr \<Rightarrow> pystr" where
  "strip s = rev (dropWhile is_whitespace (rev (dropWhile is_whitespace s)))"

text \<open>\<^verbatim>\<open>str(n)\<close> for an integer: decimal digits, a minus sign when negative.\<close>

fun digits :: "nat \<Rightarrow> pystr" where
  "digits n = (if n < 10 then [48 + n] else digits (n div 10) @ [48 + n mod 10])"

declare digits.simps [simp del]

definition str_of_int :: "int \<Rightarrow> pystr" where
  "str_of_int i = (if i < 0 then 45 # digits (nat (- i)) else digits (nat i))"

section \<open>The tag catalog and the inline keyboard\<close>

text \<open>
  \<^verbatim>\<open>TAGS\<close> is a dict literal; a Python dict keeps insertion order, so it is an
  association list and \<^verbatim>\<open>list(TAGS.keys())\<close> is its keys in that order.
\<close>

definition TAGS :: "(pystr \<times> pystr) list" where
  "TAGS = [(str ''Tag1'', str ''Desc 1''), (str ''Tag2'', str ''Desc 2''),
           (str ''Tag3'', str ''Desc 3''), (str ''Tag4'', str ''Desc 4'')]"

definition TAG_KEYS :: "pystr list" where
  "TAG_KEYS = map fst TAGS"

record button =
  button_text :: pystr
  callback_data :: pystr

type_synonym markup = "button list list"

text \<open>The check mark and a space; the floppy disk, a space and \<^verbatim>\<open>Done\<close>.\<close>

definition SELECTED_PREFIX :: pystr where
  "SELECTED_PREFIX = [9989, 32]"

definition DONE_LABEL :: pystr where
  "DONE_LABEL = [128190, 32] @ str ''Done''"

text \<open>The body of the inner loop of \<^verbatim>\<open>build_keyboard\<close>: the button of one key.\<close>

definition tag_button :: "pystr set \<Rightarrow> pystr \<Rightarrow> button" where
  "tag_button selected key =
     (let prefix = (if key \<in> selected then SELECTED_PREFIX else [])
      in \<lparr>button_text = prefix @ replace_char 95 32 key,
          callback_data = str ''tag:'' @ key\<rparr>)"

text \<open>
  The outer loop, \<^verbatim>\<open>for i in range(0, len(TAG_KEYS), 2)\<close>: the row of the slice
  \<^verbatim>\<open>TAG_KEYS[i:i + 2]\<close> is appended to \<open>buttons\<close>. The list of keys the loop reads
  is its first argument.
\<close>

function tag_rows :: "pystr list \<Rightarrow> pystr set \<Rightarrow> nat \<Rightarrow> markup \<Rightarrow> markup" where
  "tag_rows keys selected i buttons =
     (if i < length keys
      then tag_rows keys selected (i + 2)
             (buttons @ [map (tag_button selected) (take 2 (drop i keys))])
      else buttons)"
  by pat_completeness auto
termination
  by (relation "measure (\<lambda>(keys, selected, i, buttons). length keys - i)") auto

declare tag_rows.simps [simp del]

definition done_button :: button where
  "done_button = \<lparr>button_text = DONE_LABEL, callback_data = str ''done''\<rparr>"

definition build_keyboard :: "pystr set \<Rightarrow> markup" where
  "build_keyboard selected = tag_rows TAG_KEYS selected 0 [] @ [[done_button]]"

section \<open>Session state, the database and the handlers\<close>

text \<open>
  \<^verbatim>\<open>context.user_data\<close> is the dict the framework keeps for the user of the update.
  The handlers write two keys, \<^verbatim>\<open>pending_message\<close> (a dict of \<^verbatim>\<open>text\<close> and
  \<^verbatim>\<open>ts\<close>) and \<^verbatim>\<open>selected_tags\<close> (a set); a key that is absent is \<open>None\<close>. A
  \<^verbatim>\<open>datetime\<close> is an integer clock reading.
\<close>

type_synonym datetime = int

record pending =
  pending_text :: pystr
  pending_ts :: datetime

record user_data =
  pending_message :: "pending option"
  selected_tags :: "pystr set option"

text \<open>
  A row of \<^verbatim>\<open>diary_messages\<close>. \<^verbatim>\<open>list(selected)\<close> holds each selected tag once, in
  an order Python leaves open, so the row holds the set of its elements.
\<close>

record diary_row =
  telegram_id :: int
  row_ts :: datetime
  row_text :: pystr
  row_tags :: "pystr set"

text \<open>
  The calls to the messaging platform, in the order made. The platform is outside the
  program; its calls are taken to return.
\<close>

datatype action =
    ReplyText pystr markup pystr
  | AnswerCallbackQuery
  | EditMessageText pystr
  | EditMessageReplyMarkup "markup option"

text \<open>
  What a handler reads and writes: the user's dict, the rows of the table behind
  \<^verbatim>\<open>conn\<close> and the calls sent so far. A handler returns the exception it raised, if
  any, with the state it left behind.
\<close>

record ctx =
  user_data :: user_data
  conn :: "diary_row list"
  sent :: "action list"

text \<open>
  \<^verbatim>\<open>store_message\<close>: one insert. The database is outside the program, so whether the
  statement succeeds is an argument; a failure is the exception of the driver.
\<close>

definition store_message ::
    "bool \<Rightarrow> diary_row list \<Rightarrow> int \<Rightarrow> pystr \<Rightarrow> datetime \<Rightarrow> pystr set \<Rightarrow> error + diary_row list" where
  "store_message insert_ok rows tid msg_text ts tags =
     (if insert_ok
      then Inr (rows @ [\<lparr>telegram_id = tid, row_ts = ts, row_text = msg_text, row_tags = tags\<rparr>])
      else Inl PersistenceError)"

text \<open>\<^verbatim>\<open>user.username or user.id\<close> inside an f-string: \<open>None\<close> and \<^verbatim>\<open>""\<close> are falsy.\<close>

definition username_or_id :: "pystr option \<Rightarrow> int \<Rightarrow> pystr" where
  "username_or_id username uid =
     (case username of
        None \<Rightarrow> str_of_int uid
      | Some u \<Rightarrow> if u = [] then str_of_int uid else u)"

definition PROMPT :: pystr where
  "PROMPT = str ''Select the tags that apply and press *Done*.''"

definition handle_text ::
    "int \<Rightarrow> pystr option \<Rightarrow> pystr \<Rightarrow> datetime \<Rightarrow> ctx \<Rightarrow> error option \<times> ctx" where
  "handle_text uid username msg_text now c =
     (let ts = now;
          ud1 = (user_data c)\<lparr>pending_message := Some \<lparr>pending_text = msg_text, pending_ts = ts\<rparr>\<rparr>;
          ud2 = ud1\<lparr>selected_tags := Some {}\<rparr>;
          reply = str ''This is the text that '' @ username_or_id username uid @ str '' sent:''
                  @ [10, 10] @ msg_text @ [10, 10] @ PROMPT
      in (None, c\<lparr>user_data := ud2,
                  sent := sent c @ [ReplyText reply (build_keyboard {}) (str ''Markdown'')]\<rparr>))"

text \<open>
  \<^verbatim>\<open>transcribe\<close>: the speech-to-text call is outside the program; its outcome, an
  exception or the text of the response, is the argument.
\<close>

definition transcribe :: "error + pystr \<Rightarrow> error + pystr" where
  "transcribe resp = (case resp of Inl e \<Rightarrow> Inl e | Inr resp_text \<Rightarrow> Inr (strip resp_text))"

definition handle_audio ::
    "int \<Rightarrow> pystr option \<Rightarrow> error + pystr \<Rightarrow> datetime \<Rightarrow> ctx \<Rightarrow> error option \<times> ctx" where
  "handle_audio uid username resp now c =
     (case transcribe resp of
        Inl e \<Rightarrow> (Some e, c)
      | Inr transcript \<Rightarrow>
          (let ts = now;
               ud1 = (user_data c)\<lparr>pending_message := Some \<lparr>pending_text = transcript, pending_ts = ts\<rparr>\<rparr>;
               ud2 = ud1\<lparr>selected_tags := Some {}\<rparr>;
               reply = str ''This is the transcription that '' @ username_or_id username uid
                       @ str '' sent:'' @ [10, 10] @ transcript @ [10, 10] @ PROMPT
           in (None, c\<lparr>user_data := ud2,
                       sent := sent c @ [ReplyText reply (build_keyboard {}) (str ''Markdown'')]\<rparr>)))"

text \<open>The two fixed replies of \<^verbatim>\<open>button_handler\<close>; 8211 is the en dash.\<close>

definition NOTHING_TO_STORE :: pystr where
  "NOTHING_TO_STORE =
     str ''Nothing to store '' @ [8211] @ str '' please send a new message first.''"

definition SAVED :: pystr where
  "SAVED = str ''Saved! '' @ [9989]"

text \<open>\<^verbatim>\<open>context.user_data.get("selected_tags", set())\<close>.\<close>

definition get_selected_tags :: "user_data \<Rightarrow> pystr set" where
  "get_selected_tags ud = (case selected_tags ud of None \<Rightarrow> {} | Some s \<Rightarrow> s)"

text \<open>
  \<^verbatim>\<open>button_handler\<close>, for callback data \<open>data\<close>. \<open>insert_ok\<close> is the outcome of the
  insert, should the handler reach it.
\<close>

definition button_handler ::
    "int \<Rightarrow> pystr \<Rightarrow> bool \<Rightarrow> ctx \<Rightarrow> error option \<times> ctx" where
  "button_handler uid data insert_ok c0 =
     (let c = c0\<lparr>sent := sent c0 @ [AnswerCallbackQuery]\<rparr> in
      case pending_message (user_data c) of
        None \<Rightarrow> (None, c\<lparr>sent := sent c @ [EditMessageText NOTHING_TO_STORE]\<rparr>)
      | Some pending \<Rightarrow>
          (let selected = get_selected_tags (user_data c) in
           if startswith data (str ''tag:'') then
             (case index_1 (split_colon_1 data) of
                Inl e \<Rightarrow> (Some e, c)
              | Inr tag \<Rightarrow>
                  (let selected' = (if tag \<in> selected then selected - {tag} else insert tag selected);
                       c1 = c\<lparr>user_data := (user_data c)\<lparr>selected_tags := Some selected'\<rparr>\<rparr>
                   in (None, c1\<lparr>sent := sent c1 @ [EditMessageReplyMarkup (Some (build_keyboard selected'))]\<rparr>)))
           else if data = str ''done'' then
             (let msg_text = pending_text pending;
                  ts = pending_ts pending;
                  tags = selected
              in case store_message insert_ok (conn c) uid msg_text ts tags of
                   Inl e \<Rightarrow> (Some e, c)
                 | Inr rows \<Rightarrow>
                     (let c1 = c\<lparr>conn := rows,
                                 sent := sent c @ [EditMessageReplyMarkup None, EditMessageText SAVED]\<rparr>
                      in (None, c1\<lparr>user_data := \<lparr>pending_message = None, selected_tags = None\<rparr>\<rparr>)))
           else (None, c)))"

text \<open>
  A run of button presses, each with its callback data and the outcome of its insert.
  An exception ends one press only: the error handler logs it, and the state the press
  left behind is what the next one finds.
\<close>

fun presses :: "int \<Rightarrow> (pystr \<times> bool) list \<Rightarrow> ctx \<Rightarrow> ctx" where
  "presses uid [] c = c"
| "presses uid ((data, insert_ok) # ps) c = presses uid ps (snd (button_handler uid data insert_ok c))"

text \<open>The callback data of the toggle button of a tag, and a run of toggles.\<close>

definition toggle_data :: "pystr \<Rightarrow> pystr" where
  "toggle_data tag = str ''tag:'' @ tag"

definition toggles :: "int \<Rightarrow> pystr list \<Rightarrow> ctx \<Rightarrow> ctx" where
  "toggles uid tags c = presses uid (map (\<lambda>t. (toggle_data t, True)) tags) c"

text \<open>
  The label of a tag's button as the specification words it, to compare with
  \<open>tag_button\<close>: the description of the tag, underscores turned into spaces, behind
  the selection marker when the tag is selected.
\<close>

definition spec_label :: "pystr set \<Rightarrow> pystr \<times> pystr \<Rightarrow> pystr" where
  "spec_label selected tag =
     (if fst tag \<in> selected then SELECTED_PREFIX else []) @ replace_char 95 32 (snd tag)"

text \<open>A fresh conversation: neither key in the dict, an empty table, nothing sent.\<close>

definition empty_ctx :: ctx where
  "empty_ctx = \<lparr>user_data = \<lparr>pending_message = None, selected_tags = None\<rparr>, conn = [], sent = []\<rparr>"

section \<open>Supporting lemmas\<close>

lemma build_keyboard_rows:
  "build_keyboard selected =
     [[tag_button selected (str ''Tag1''), tag_button selected (str ''Tag2'')],
      [tag_button selected (str ''Tag3''), tag_button selected (str ''Tag4'')],
      [done_button]]"
  by (simp add: build_keyboard_def TAG_KEYS_def TAGS_def tag_rows.simps)

lemma startswith_toggle_data: "startswith (toggle_data t) (str ''tag:'')"
  by (simp add: startswith_def toggle_data_def)

lemma split_toggle_data: "index_1 (split_colon_1 (toggle_data t)) = Inr t"
  by (simp add: index_1_def split_colon_1_def toggle_data_def)

lemma toggle_data_not_done: "toggle_data t \<noteq> str ''done''"
  by (simp add: toggle_data_def)

lemma startswith_tag_split:
  assumes "startswith data (str ''tag:'')"
  shows "index_1 (split_colon_1 data) = Inr (drop 4 data)"
proof -
  have len: "length (str ''tag:'') = 4" by simp
  from assms have "take (length (str ''tag:'')) data = str ''tag:''"
    unfolding startswith_def .
  then have "data = str ''tag:'' @ drop (length (str ''tag:'')) data"
    by (metis append_take_drop_id)
  then obtain r where d: "data = str ''tag:'' @ r" and r: "r = drop 4 data"
    unfolding len by blast
  show ?thesis unfolding r[symmetric] by (simp add: d index_1_def split_colon_1_def)
qed

lemma button_handler_toggle:
  assumes "pending_message (user_data c) = Some p"
  shows "button_handler uid (toggle_data t) ok c =
     (None, c\<lparr>user_data := (user_data c)\<lparr>selected_tags :=
                 Some (if t \<in> get_selected_tags (user_data c)
                       then get_selected_tags (user_data c) - {t}
                       else insert t (get_selected_tags (user_data c)))\<rparr>,
               sent := sent c @ [AnswerCallbackQuery,
                 EditMessageReplyMarkup (Some (build_keyboard
                   (if t \<in> get_selected_tags (user_data c)
                       then get_selected_tags (user_data c) - {t}
                       else insert t (get_selected_tags (user_data c)))))]\<rparr>)"
  using assms startswith_toggle_data[of t] split_toggle_data[of t] toggle_data_not_done[of t]
  by (simp add: button_handler_def Let_def)

lemma button_handler_absent:
  assumes "pending_message (user_data c) = None"
  shows "button_handler uid data ok c =
     (None, c\<lparr>sent := sent c @ [AnswerCallbackQuery, EditMessageText NOTHING_TO_STORE]\<rparr>)"
  using assms by (simp add: button_handler_def Let_def)

lemma button_handler_done_ok:
  assumes "pending_message (user_data c) = Some p"
  shows "button_handler uid (str ''done'') True c =
     (None, c\<lparr>user_data := \<lparr>pending_message = None, selected_tags = None\<rparr>,
               conn := conn c @ [\<lparr>telegram_id = uid, row_ts = pending_ts p, row_text = pending_text p,
                  row_tags = get_selected_tags (user_data c)\<rparr>],
               sent := sent c @ [AnswerCallbackQuery, EditMessageReplyMarkup None, EditMessageText SAVED]\<rparr>)"
  using assms
  by (simp add: button_handler_def startswith_def store_message_def Let_def)

lemma button_handler_done_fail:
  assumes "pending_message (user_data c) = Some p"
  shows "button_handler uid (str ''done'') False c =
     (Some PersistenceError, c\<lparr>sent := sent c @ [AnswerCallbackQuery]\<rparr>)"
  using assms
  by (simp add: button_handler_def startswith_def store_message_def Let_def)

lemma button_handler_never_IndexError:
  "fst (button_handler uid data ok c) \<noteq> Some IndexError"
  by (auto simp: button_handler_def Let_def store_message_def startswith_tag_split
           split: option.splits sum.splits)

lemma handle_text_user_data:
  "user_data (snd (handle_text uid un txt now c)) =
     \<lparr>pending_message = Some \<lparr>pending_text = txt, pending_ts = now\<rparr>, selected_tags = Some {}\<rparr>"
  by (simp add: handle_text_def Let_def)

lemma handle_audio_user_data:
  "user_data (snd (handle_audio uid un (Inr r) now c)) =
     \<lparr>pending_message = Some \<lparr>pending_text = strip r, pending_ts = now\<rparr>, selected_tags = Some {}\<rparr>"
  by (simp add: handle_audio_def transcribe_def Let_def)

lemma toggles_Nil: "toggles uid [] c = c"
  by (simp add: toggles_def)

lemma toggles_Cons:
  "toggles uid (t # ts) c = toggles uid ts (snd (button_handler uid (toggle_data t) True c))"
  by (simp add: toggles_def)

lemma toggles_pending:
  "pending_message (user_data c) = Some p \<Longrightarrow> pending_message (user_data (toggles uid ts c)) = Some p"
proof (induction ts arbitrary: c)
  case Nil
  then show ?case by (simp add: toggles_Nil)
next
  case (Cons t ts)
  have "pending_message (user_data (snd (button_handler uid (toggle_data t) True c))) = Some p"
    using Cons.prems by (simp add: button_handler_toggle)
  then show ?case by (simp add: toggles_Cons Cons.IH)
qed

lemma toggles_conn:
  "pending_message (user_data c) = Some p \<Longrightarrow> conn (toggles uid ts c) = conn c"
proof (induction ts arbitrary: c)
  case Nil
  then show ?case by (simp add: toggles_Nil)
next
  case (Cons t ts)
  let ?c' = "snd (button_handler uid (toggle_data t) True c)"
  have "pending_message (user_data ?c') = Some p" and "conn ?c' = conn c"
    using Cons.prems by (simp_all add: button_handler_toggle)
  then show ?case by (simp add: toggles_Cons Cons.IH)
qed

lemma toggle_selected:
  assumes "pending_message (user_data c) = Some p"
  shows "get_selected_tags (user_data (snd (button_handler uid (toggle_data t) ok c))) =
           (if t \<in> get_selected_tags (user_data c)
            then get_selected_tags (user_data c) - {t}
            else insert t (get_selected_tags (user_data c)))"
  using assms by (simp add: button_handler_toggle get_selected_tags_def)

lemma toggles_parity:
  "pending_message (user_data c) = Some p \<Longrightarrow>
   (u \<in> get_selected_tags (user_data (toggles uid ts c))) =
     ((u \<in> get_selected_tags (user_data c)) \<noteq> odd (count_list ts u))"
proof (induction ts arbitrary: c)
  case Nil
  then show ?case by (simp add: toggles_Nil)
next
  case (Cons t ts)
  let ?c' = "snd (button_handler uid (toggle_data t) True c)"
  have p': "pending_message (user_data ?c') = Some p"
    using Cons.prems by (simp add: button_handler_toggle)
  have step: "(u \<in> get_selected_tags (user_data ?c')) =
                ((u \<in> get_selected_tags (user_data c)) \<noteq> (u = t))"
    using Cons.prems by (auto simp: toggle_selected)
  show ?case
    unfolding toggles_Cons Cons.IH[OF p'] step by auto
qed

lemma presses_absent:
  "pending_message (user_data c) = None \<Longrightarrow>
   presses uid ps c =
     c\<lparr>sent := sent c @ concat (map (\<lambda>_. [AnswerCallbackQuery, EditMessageText NOTHING_TO_STORE]) ps)\<rparr>"
proof (induction ps arbitrary: c)
  case Nil
  then show ?case by simp
next
  case (Cons a ps)
  obtain data ok where a: "a = (data, ok)" by (cases a)
  let ?c' = "c\<lparr>sent := sent c @ [AnswerCallbackQuery, EditMessageText NOTHING_TO_STORE]\<rparr>"
  have "pending_message (user_data ?c') = None" using Cons.prems by simp
  from Cons.IH[OF this] show ?case
    using Cons.prems by (simp add: a button_handler_absent)
qed

lemma handle_text_conn: "conn (snd (handle_text uid un txt now c)) = conn c"
  by (simp add: handle_text_def Let_def)

lemma session_from_text:
  "pending_message (user_data (toggles uid ts (snd (handle_text uid un txt now c)))) =
     Some \<lparr>pending_text = txt, pending_ts = now\<rparr> \<and>
   conn (toggles uid ts (snd (handle_text uid un txt now c))) = conn c \<and>
   get_selected_tags (user_data (toggles uid ts (snd (handle_text uid un txt now c)))) =
     {t. odd (count_list ts t)}"
proof -
  let ?c1 = "snd (handle_text uid un txt now c)"
  have p1: "pending_message (user_data ?c1) = Some \<lparr>pending_text = txt, pending_ts = now\<rparr>"
    by (simp add: handle_text_user_data)
  have g1: "get_selected_tags (user_data ?c1) = {}"
    by (simp add: handle_text_user_data get_selected_tags_def)
  have "get_selected_tags (user_data (toggles uid ts ?c1)) = {t. odd (count_list ts t)}"
    by (rule set_eqI) (simp add: toggles_parity[OF p1] g1)
  then show ?thesis
    by (simp add: toggles_pending[OF p1] toggles_conn[OF p1] handle_text_conn)
qed

subsection \<open>The rows of the keyboard\<close>

lemma tag_rows_closed_form:
  "tag_rows keys selected i buttons =
     buttons @ map (\<lambda>j. map (tag_button selected) (take 2 (drop (i + 2 * j) keys)))
                 [0..<(length keys - i + 1) div 2]"
proof (induction keys selected i buttons rule: tag_rows.induct)
  case (1 keys selected i buttons)
  show ?case
  proof (cases "i < length keys")
    case False
    then have "(length keys - i + 1) div 2 = 0" by simp
    with False show ?thesis by (simp add: tag_rows.simps[of keys selected i buttons])
  next
    case True
    define n where "n = (length keys - (i + 2) + 1) div 2"
    from True have n: "(length keys - i + 1) div 2 = Suc n"
      unfolding n_def by (simp add: Suc_diff_le) arith
    have "tag_rows keys selected i buttons =
        tag_rows keys selected (i + 2)
          (buttons @ [map (tag_button selected) (take 2 (drop i keys))])"
      using True by (simp add: tag_rows.simps[of keys selected i buttons])
    also have "\<dots> = (buttons @ [map (tag_button selected) (take 2 (drop i keys))]) @
        map (\<lambda>j. map (tag_button selected) (take 2 (drop (i + 2 + 2 * j) keys))) [0..<n]"
      using "1.IH"[OF True] unfolding n_def by simp
    also have "\<dots> = buttons @
        map (\<lambda>j. map (tag_button selected) (take 2 (drop (i + 2 * j) keys))) [0..<Suc n]"
      by (simp only: map_upt_Suc) (simp add: add.assoc)
    finally show ?thesis unfolding n by simp
  qed
qed

lemma tag_rows_in_order:
  "concat (tag_rows keys selected 0 []) = map (tag_button selected) keys"
proof -
  have "concat (tag_rows keys selected i buttons) =
          concat buttons @ map (tag_button selected) (drop i keys)" for i buttons
  proof (induction keys selected i buttons rule: tag_rows.induct)
    case (1 keys selected i buttons)
    show ?case
    proof (cases "i < length keys")
      case False
      then show ?thesis by (simp add: tag_rows.simps[of keys selected i buttons])
    next
      case True
      have "take 2 (drop i keys) @ drop (i + 2) keys = drop i keys"
        by (metis add.commute append_take_drop_id drop_drop)
      then have "map (tag_button selected) (take 2 (drop i keys)) @
                 map (tag_button selected) (drop (i + 2) keys) =
                 map (tag_button selected) (drop i keys)"
        by (metis map_append)
      with "1.IH"[OF True] True show ?thesis
        by (simp add: tag_rows.simps[of keys selected i buttons])
    qed
  qed
  from this[of 0 "[]"] show ?thesis by simp
qed

subsection \<open>Trimming\<close>

lemma strip_decomposition:
  "r = takeWhile is_whitespace r @ strip r @
       rev (takeWhile is_whitespace (rev (dropWhile is_whitespace r)))"
proof -
  let ?m = "dropWhile is_whitespace r"
  have "?m = rev (rev ?m)" by simp
  also have "\<dots> = rev (takeWhile is_whitespace (rev ?m) @ dropWhile is_whitespace (rev ?m))"
    by (simp only: takeWhile_dropWhile_id)
  also have "\<dots> = rev (dropWhile is_whitespace (rev ?m)) @ rev (takeWhile is_whitespace (rev ?m))"
    by (simp only: rev_append)
  finally have m: "?m = strip r @ rev (takeWhile is_whitespace (rev ?m))"
    unfolding strip_def .
  have "r = takeWhile is_whitespace r @ ?m" by simp
  then show ?thesis using m by (simp only: )
qed

lemma strip_last: "strip r \<noteq> [] \<Longrightarrow> \<not> is_whitespace (last (strip r))"
proof -
  assume ne: "strip r \<noteq> []"
  let ?d = "dropWhile is_whitespace (rev (dropWhile is_whitespace r))"
  from ne have d: "?d \<noteq> []" by (simp add: strip_def)
  then have "\<not> is_whitespace (hd ?d)" by (rule hd_dropWhile)
  moreover have "last (strip r) = hd ?d" using d by (simp add: strip_def last_rev)
  ultimately show ?thesis by simp
qed

lemma strip_hd: "strip r \<noteq> [] \<Longrightarrow> \<not> is_whitespace (hd (strip r))"
proof -
  assume ne: "strip r \<noteq> []"
  obtain a b where r: "r = a @ strip r @ b" and a: "a = takeWhile is_whitespace r"
    using strip_decomposition[of r] by blast
  have "takeWhile is_whitespace r @ dropWhile is_whitespace r = a @ strip r @ b"
    using r by simp
  then have m: "dropWhile is_whitespace r = strip r @ b"
    unfolding a by (rule same_append_eq[THEN iffD1])
  with ne have mne: "dropWhile is_whitespace r \<noteq> []" by simp
  then have "\<not> is_whitespace (hd (dropWhile is_whitespace r))" by (rule hd_dropWhile)
  moreover have "hd (dropWhile is_whitespace r) = hd (strip r)"
    unfolding m using ne by simp
  ultimately show ?thesis by simp
qed

lemma strip_empty: "strip [] = []"
  by (simp add: strip_def)

lemma list_all_takeWhile: "list_all P (takeWhile P xs)"
  by (induction xs) auto

lemma handle_audio_as_text:
  "snd (handle_audio uid un (Inr r) now c) =
     (snd (handle_text uid un (strip r) now c))
       \<lparr>sent := sent c @
          [ReplyText (str ''This is the transcription that '' @ username_or_id un uid
                        @ str '' sent:'' @ [10, 10] @ strip r @ [10, 10] @ PROMPT)
             (build_keyboard {}) (str ''Markdown'')]\<rparr>"
  by (simp add: handle_audio_def handle_text_def transcribe_def Let_def)

lemma strip_example: "strip ([32, 9] @ str ''hi  there'' @ [10, 160, 32]) = str ''hi  there''"
  by (simp add: strip_def is_whitespace_def)

subsection \<open>The scenario of the specification\<close>

text \<open>
  The scenario of the specification: the user sends "Hello world", toggles Tag1 twice
  and Tag2 once.
\<close>

lemma scenario_state:
  "user_data (toggles 7 [str ''Tag1'', str ''Tag1'', str ''Tag2'']
       (snd (handle_text 7 None (str ''Hello world'') 1000 empty_ctx))) =
     \<lparr>pending_message = Some \<lparr>pending_text = str ''Hello world'', pending_ts = 1000\<rparr>,
      selected_tags = Some {str ''Tag2''}\<rparr>"
  by (simp add: toggles_Cons toggles_Nil button_handler_toggle handle_text_user_data
        get_selected_tags_def)

lemma scenario_conn:
  "conn (toggles 7 [str ''Tag1'', str ''Tag1'', str ''Tag2'']
       (snd (handle_text 7 None (str ''Hello world'') 1000 empty_ctx))) = []"
  by (simp add: toggles_conn[where p = "\<lparr>pending_text = str ''Hello world'', pending_ts = 1000\<rparr>"]
        handle_text_user_data) (simp add: handle_text_def empty_ctx_def Let_def)

section \<open>The claims\<close>

text \<open>
  C1. When "done" is pressed with an active session and the insert succeeds, the
  handler raises nothing and the table grows by exactly one row: the user's id, the
  text and the timestamp of the pending entry, and as tags the selected set as it
  stands at that press (the empty set when nothing is selected). For a session opened
  by a text message and followed by any run of toggles, that row holds the text and
  the clock reading of the message and the tags toggled an odd number of times.
\<close>

theorem done_persists_session:
  assumes "pending_message (user_data c) = Some p"
  shows "fst (button_handler uid (str ''done'') True c) = None \<and>
         conn (snd (button_handler uid (str ''done'') True c)) =
           conn c @ [\<lparr>telegram_id = uid, row_ts = pending_ts p, row_text = pending_text p,
                      row_tags = get_selected_tags (user_data c)\<rparr>] \<and>
         conn (snd (button_handler uid (str ''done'') True
                 (toggles uid ts (snd (handle_text uid un txt now c))))) =
           conn c @ [\<lparr>telegram_id = uid, row_ts = now, row_text = txt,
                      row_tags = {t. odd (count_list ts t)}\<rparr>]"
proof -
  let ?c2 = "toggles uid ts (snd (handle_text uid un txt now c))"
  note s = session_from_text[of uid ts un "txt" now c]
  note p2 = s[THEN conjunct1]
  have "conn (snd (button_handler uid (str ''done'') True ?c2)) =
           conn c @ [\<lparr>telegram_id = uid, row_ts = now, row_text = txt,
                      row_tags = {t. odd (count_list ts t)}\<rparr>]"
    using button_handler_done_ok[OF p2, of uid] s by simp
  then show ?thesis
    using button_handler_done_ok[OF assms, of uid] by simp
qed

theorem done_persists_session_witness:
  "pending_message (user_data (toggles 7 [str ''Tag1'', str ''Tag1'', str ''Tag2'']
       (snd (handle_text 7 None (str ''Hello world'') 1000 empty_ctx)))) =
     Some \<lparr>pending_text = str ''Hello world'', pending_ts = 1000\<rparr> \<and>
   fst (button_handler 7 (str ''done'') True (toggles 7 [str ''Tag1'', str ''Tag1'', str ''Tag2'']
       (snd (handle_text 7 None (str ''Hello world'') 1000 empty_ctx)))) = None \<and>
   conn (snd (button_handler 7 (str ''done'') True (toggles 7 [str ''Tag1'', str ''Tag1'', str ''Tag2'']
       (snd (handle_text 7 None (str ''Hello world'') 1000 empty_ctx))))) =
     [\<lparr>telegram_id = 7, row_ts = 1000, row_text = str ''Hello world'', row_tags = {str ''Tag2''}\<rparr>]"
proof -
  let ?c = "toggles 7 [str ''Tag1'', str ''Tag1'', str ''Tag2'']
       (snd (handle_text 7 None (str ''Hello world'') 1000 empty_ctx))"
  have p: "pending_message (user_data ?c) =
      Some \<lparr>pending_text = str ''Hello world'', pending_ts = 1000\<rparr>"
    by (simp only: scenario_state user_data.simps)
  have s: "get_selected_tags (user_data ?c) = {str ''Tag2''}"
    by (simp only: scenario_state get_selected_tags_def user_data.simps option.simps)
  from done_persists_session[OF p, of 7] p s scenario_conn show ?thesis
    by simp
qed

text \<open>
  C2. With an active session, one toggle of a tag flips the membership of that tag in
  the selected set and leaves the membership of every other identifier as it was; the
  identifier is any string, in the catalog or not. From the empty set a new session
  starts with, after any run of toggles an identifier is selected exactly when it was
  toggled an odd number of times.
\<close>

theorem toggle_membership_parity:
  assumes "pending_message (user_data c) = Some p"
  shows "(t \<in> get_selected_tags (user_data (snd (button_handler uid (toggle_data t) ok c)))) =
           (t \<notin> get_selected_tags (user_data c)) \<and>
         (\<forall>u. u \<noteq> t \<longrightarrow>
            (u \<in> get_selected_tags (user_data (snd (button_handler uid (toggle_data t) ok c)))) =
            (u \<in> get_selected_tags (user_data c))) \<and>
         (selected_tags (user_data c) = Some {} \<longrightarrow>
            (\<forall>u. (u \<in> get_selected_tags (user_data (toggles uid ts c))) = odd (count_list ts u)))"
proof (intro conjI allI impI)
  show "(t \<in> get_selected_tags (user_data (snd (button_handler uid (toggle_data t) ok c)))) =
           (t \<notin> get_selected_tags (user_data c))"
    by (simp add: toggle_selected[OF assms])
next
  fix u assume "u \<noteq> t"
  then show "(u \<in> get_selected_tags (user_data (snd (button_handler uid (toggle_data t) ok c)))) =
            (u \<in> get_selected_tags (user_data c))"
    by (simp add: toggle_selected[OF assms])
next
  fix u assume "selected_tags (user_data c) = Some {}"
  then have "get_selected_tags (user_data c) = {}" by (simp add: get_selected_tags_def)
  then show "(u \<in> get_selected_tags (user_data (toggles uid ts c))) = odd (count_list ts u)"
    by (simp add: toggles_parity[OF assms])
qed

theorem toggle_membership_parity_witness:
  "pending_message (user_data (snd (handle_text 7 None (str ''Hello world'') 1000 empty_ctx))) =
     Some \<lparr>pending_text = str ''Hello world'', pending_ts = 1000\<rparr> \<and>
   selected_tags (user_data (snd (handle_text 7 None (str ''Hello world'') 1000 empty_ctx))) = Some {} \<and>
   str ''Tag1'' \<in> get_selected_tags (user_data (snd (button_handler 7 (toggle_data (str ''Tag1'')) True
       (snd (handle_text 7 None (str ''Hello world'') 1000 empty_ctx))))) \<and>
   str ''Tag2'' \<notin> get_selected_tags (user_data (snd (button_handler 7 (toggle_data (str ''Tag1'')) True
       (snd (handle_text 7 None (str ''Hello world'') 1000 empty_ctx))))) \<and>
   str ''Tag1'' \<in> get_selected_tags (user_data (toggles 7 [str ''Tag1'', str ''Tag2'', str ''Tag1'', str ''Tag1'']
       (snd (handle_text 7 None (str ''Hello world'') 1000 empty_ctx)))) \<and>
   str ''nope:x'' \<in> get_selected_tags (user_data (toggles 7 [str ''nope:x'']
       (snd (handle_text 7 None (str ''Hello world'') 1000 empty_ctx)))) \<and>
   str ''Tag3'' \<notin> get_selected_tags (user_data (toggles 7 [str ''Tag3'', str ''Tag2'', str ''Tag3'']
       (snd (handle_text 7 None (str ''Hello world'') 1000 empty_ctx))))"
proof -
  let ?c = "snd (handle_text 7 None (str ''Hello world'') 1000 empty_ctx)"
  have p: "pending_message (user_data ?c) =
      Some \<lparr>pending_text = str ''Hello world'', pending_ts = 1000\<rparr>"
    by (simp only: handle_text_user_data user_data.simps)
  have s: "selected_tags (user_data ?c) = Some {}"
    by (simp only: handle_text_user_data user_data.simps)
  have g: "get_selected_tags (user_data ?c) = {}"
    by (simp only: s get_selected_tags_def option.simps)
  note th = toggle_membership_parity[OF p]
  have a: "str ''Tag1'' \<in> get_selected_tags (user_data (snd (button_handler 7 (toggle_data (str ''Tag1'')) True ?c)))"
    using th[of "str ''Tag1''" 7 True "[]"] g by simp
  have a': "str ''Tag2'' \<notin> get_selected_tags (user_data (snd (button_handler 7 (toggle_data (str ''Tag1'')) True ?c)))"
    using th[of "str ''Tag1''" 7 True "[]"] g by simp
  have b: "str ''Tag1'' \<in> get_selected_tags (user_data (toggles 7 [str ''Tag1'', str ''Tag2'', str ''Tag1'', str ''Tag1''] ?c))"
    using th[of "str ''Tag1''" 7 True "[str ''Tag1'', str ''Tag2'', str ''Tag1'', str ''Tag1'']"] s by simp
  have c: "str ''nope:x'' \<in> get_selected_tags (user_data (toggles 7 [str ''nope:x''] ?c))"
    using th[of "str ''Tag1''" 7 True "[str ''nope:x'']"] s by simp
  have d: "str ''Tag3'' \<notin> get_selected_tags (user_data (toggles 7 [str ''Tag3'', str ''Tag2'', str ''Tag3''] ?c))"
    using th[of "str ''Tag1''" 7 True "[str ''Tag3'', str ''Tag2'', str ''Tag3'']"] s by simp
  from p s a a' b c d show ?thesis by (intro conjI)
qed

text \<open>
  C3. A successful "done" clears the user's dict. From then on every button press, a
  toggle or a "done" with whatever data, raises nothing, answers "nothing to store",
  and changes neither the dict nor the table; this holds for any run of presses. A new
  message opens a session again, and a toggle then selects its tag.
\<close>

theorem completed_session_rejects_presses:
  assumes "pending_message (user_data c) = Some p"
  shows "user_data (snd (button_handler uid (str ''done'') True c)) =
           \<lparr>pending_message = None, selected_tags = None\<rparr> \<and>
         fst (button_handler uid data ok (snd (button_handler uid (str ''done'') True c))) = None \<and>
         snd (button_handler uid data ok (snd (button_handler uid (str ''done'') True c))) =
           (snd (button_handler uid (str ''done'') True c))
             \<lparr>sent := sent (snd (button_handler uid (str ''done'') True c)) @
                        [AnswerCallbackQuery, EditMessageText NOTHING_TO_STORE]\<rparr> \<and>
         presses uid ps (snd (button_handler uid (str ''done'') True c)) =
           (snd (button_handler uid (str ''done'') True c))
             \<lparr>sent := sent (snd (button_handler uid (str ''done'') True c)) @
                        concat (map (\<lambda>_. [AnswerCallbackQuery, EditMessageText NOTHING_TO_STORE]) ps)\<rparr> \<and>
         get_selected_tags (user_data (snd (button_handler uid (toggle_data t) ok
             (snd (handle_text uid un txt now
                (presses uid ps (snd (button_handler uid (str ''done'') True c)))))))) = {t}"
proof -
  let ?c1 = "snd (button_handler uid (str ''done'') True c)"
  have ud: "user_data ?c1 = \<lparr>pending_message = None, selected_tags = None\<rparr>"
    using button_handler_done_ok[OF assms, of uid] by simp
  then have absent: "pending_message (user_data ?c1) = None" by simp
  let ?c2 = "snd (handle_text uid un txt now (presses uid ps ?c1))"
  have p2: "pending_message (user_data ?c2) = Some \<lparr>pending_text = txt, pending_ts = now\<rparr>"
    by (simp add: handle_text_user_data)
  have s2: "get_selected_tags (user_data ?c2) = {}"
    by (simp add: handle_text_user_data get_selected_tags_def)
  have "get_selected_tags (user_data (snd (button_handler uid (toggle_data t) ok ?c2))) = {t}"
    using toggle_selected[OF p2, of uid t ok] s2 by simp
  with ud button_handler_absent[OF absent, of uid data ok] presses_absent[OF absent, of uid ps]
  show ?thesis by simp
qed

theorem completed_session_rejects_presses_witness:
  "pending_message (user_data (snd (handle_text 7 None (str ''Hello world'') 1000 empty_ctx))) =
     Some \<lparr>pending_text = str ''Hello world'', pending_ts = 1000\<rparr> \<and>
   user_data (snd (button_handler 7 (str ''done'') True
       (snd (handle_text 7 None (str ''Hello world'') 1000 empty_ctx)))) =
     \<lparr>pending_message = None, selected_tags = None\<rparr> \<and>
   fst (button_handler 7 (toggle_data (str ''Tag1'')) True (snd (button_handler 7 (str ''done'') True
       (snd (handle_text 7 None (str ''Hello world'') 1000 empty_ctx))))) = None \<and>
   conn (presses 7 [(toggle_data (str ''Tag1''), True), (str ''done'', True)]
       (snd (button_handler 7 (str ''done'') True
          (snd (handle_text 7 None (str ''Hello world'') 1000 empty_ctx))))) =
     [\<lparr>telegram_id = 7, row_ts = 1000, row_text = str ''Hello world'', row_tags = {}\<rparr>]"
proof -
  let ?c = "snd (handle_text 7 None (str ''Hello world'') 1000 empty_ctx)"
  have p: "pending_message (user_data ?c) =
      Some \<lparr>pending_text = str ''Hello world'', pending_ts = 1000\<rparr>"
    by (simp only: handle_text_user_data user_data.simps)
  have g: "get_selected_tags (user_data ?c) = {}"
    by (simp add: handle_text_user_data get_selected_tags_def)
  have k: "conn ?c = []"
    by (simp add: handle_text_def empty_ctx_def Let_def)
  have d: "conn (snd (button_handler 7 (str ''done'') True ?c)) =
      [\<lparr>telegram_id = 7, row_ts = 1000, row_text = str ''Hello world'', row_tags = {}\<rparr>]"
    using button_handler_done_ok[OF p, of 7] g k by simp
  from completed_session_rejects_presses[OF p, of 7 "toggle_data (str ''Tag1'')" True
      "[(toggle_data (str ''Tag1''), True), (str ''done'', True)]" "str ''Tag1''" None "[]" 0]
    p d show ?thesis by (simp del: presses.simps)
qed

text \<open>
  C4. A text message, and an audio message whose transcription succeeds, raise nothing
  and set the user's dict to the new pending entry with an empty selected set, whatever
  the dict held before: a second message after a first one and any toggles leaves the
  dict that the second message alone would leave. The table is not touched.
\<close>

theorem begin_session_overwrites:
  "fst (handle_text uid un txt now c) = None \<and>
   user_data (snd (handle_text uid un txt now c)) =
     \<lparr>pending_message = Some \<lparr>pending_text = txt, pending_ts = now\<rparr>, selected_tags = Some {}\<rparr> \<and>
   fst (handle_audio uid un (Inr r) now c) = None \<and>
   user_data (snd (handle_audio uid un (Inr r) now c)) =
     \<lparr>pending_message = Some \<lparr>pending_text = strip r, pending_ts = now\<rparr>, selected_tags = Some {}\<rparr> \<and>
   user_data (snd (handle_text uid un txt now (toggles uid ts (snd (handle_text uid un' txt' now' c))))) =
     user_data (snd (handle_text uid un txt now c)) \<and>
   user_data (snd (handle_audio uid un (Inr r) now (toggles uid ts (snd (handle_text uid un' txt' now' c))))) =
     user_data (snd (handle_audio uid un (Inr r) now c)) \<and>
   conn (snd (handle_text uid un txt now c)) = conn c \<and>
   conn (snd (handle_audio uid un (Inr r) now c)) = conn c"
  by (simp add: handle_text_def handle_audio_def transcribe_def Let_def)

text \<open>
  C5. With no pending message, a press with any callback data ("done", a toggle or
  anything else) raises nothing, answers the callback and edits the message to the
  "nothing to store" text; the dict and the table stay as they were.
\<close>

theorem no_session_nothing_to_store:
  assumes "pending_message (user_data c) = None"
  shows "button_handler uid data ok c =
           (None, c\<lparr>sent := sent c @ [AnswerCallbackQuery, EditMessageText NOTHING_TO_STORE]\<rparr>) \<and>
         user_data (snd (button_handler uid data ok c)) = user_data c \<and>
         conn (snd (button_handler uid data ok c)) = conn c"
  by (simp add: button_handler_absent[OF assms])

theorem no_session_nothing_to_store_witness:
  "pending_message (user_data empty_ctx) = None \<and>
   button_handler 7 (str ''done'') True empty_ctx =
     (None, empty_ctx\<lparr>sent := [AnswerCallbackQuery, EditMessageText NOTHING_TO_STORE]\<rparr>) \<and>
   button_handler 7 (toggle_data (str ''Tag1'')) True empty_ctx =
     (None, empty_ctx\<lparr>sent := [AnswerCallbackQuery, EditMessageText NOTHING_TO_STORE]\<rparr>) \<and>
   conn (snd (button_handler 7 (str ''done'') True empty_ctx)) = []"
proof -
  have a: "pending_message (user_data empty_ctx) = None" by (simp add: empty_ctx_def)
  have s: "sent empty_ctx = []" and k: "conn empty_ctx = []" by (simp_all add: empty_ctx_def)
  from no_session_nothing_to_store[OF a, of 7 "str ''done''" True]
       no_session_nothing_to_store[OF a, of 7 "toggle_data (str ''Tag1'')" True] a s k
  show ?thesis by simp
qed

text \<open>
  C6. The claim fails in one point: the label of a tag's button is made from the tag's
  identifier (the key of the catalog), not from its description, which the keyboard
  never reads. As amended: for every selected set the keyboard holds the catalog's keys
  two per row in catalog order, each button labelled with the key, underscores turned
  into spaces, behind the selection marker exactly when the key is selected, and one
  last row holding the single Done button. The first equation gives the rows by index
  for the catalog's key list, the second spells the keyboard out.
\<close>

theorem keyboard_layout:
  "build_keyboard selected =
     map (\<lambda>j. map (\<lambda>key. \<lparr>button_text = (if key \<in> selected then SELECTED_PREFIX else [])
                                          @ replace_char 95 32 key,
                           callback_data = str ''tag:'' @ key\<rparr>)
                (take 2 (drop (2 * j) TAG_KEYS)))
         [0..<(length TAG_KEYS + 1) div 2]
     @ [[\<lparr>button_text = DONE_LABEL, callback_data = str ''done''\<rparr>]] \<and>
   build_keyboard selected =
     [[\<lparr>button_text = (if str ''Tag1'' \<in> selected then SELECTED_PREFIX else []) @ str ''Tag1'',
        callback_data = str ''tag:Tag1''\<rparr>,
       \<lparr>button_text = (if str ''Tag2'' \<in> selected then SELECTED_PREFIX else []) @ str ''Tag2'',
        callback_data = str ''tag:Tag2''\<rparr>],
      [\<lparr>button_text = (if str ''Tag3'' \<in> selected then SELECTED_PREFIX else []) @ str ''Tag3'',
        callback_data = str ''tag:Tag3''\<rparr>,
       \<lparr>button_text = (if str ''Tag4'' \<in> selected then SELECTED_PREFIX else []) @ str ''Tag4'',
        callback_data = str ''tag:Tag4''\<rparr>],
      [\<lparr>button_text = DONE_LABEL, callback_data = str ''done''\<rparr>]]"
proof
  have "tag_button selected = (\<lambda>key. \<lparr>button_text = (if key \<in> selected then SELECTED_PREFIX else [])
                                          @ replace_char 95 32 key,
                           callback_data = str ''tag:'' @ key\<rparr>)"
    by (rule ext) (simp add: tag_button_def Let_def)
  then show "build_keyboard selected =
     map (\<lambda>j. map (\<lambda>key. \<lparr>button_text = (if key \<in> selected then SELECTED_PREFIX else [])
                                          @ replace_char 95 32 key,
                           callback_data = str ''tag:'' @ key\<rparr>)
                (take 2 (drop (2 * j) TAG_KEYS)))
         [0..<(length TAG_KEYS + 1) div 2]
     @ [[\<lparr>button_text = DONE_LABEL, callback_data = str ''done''\<rparr>]]"
    unfolding build_keyboard_def done_button_def
    using tag_rows_closed_form[of TAG_KEYS selected 0 "[]"] by simp
next
  show "build_keyboard selected =
     [[\<lparr>button_text = (if str ''Tag1'' \<in> selected then SELECTED_PREFIX else []) @ str ''Tag1'',
        callback_data = str ''tag:Tag1''\<rparr>,
       \<lparr>button_text = (if str ''Tag2'' \<in> selected then SELECTED_PREFIX else []) @ str ''Tag2'',
        callback_data = str ''tag:Tag2''\<rparr>],
      [\<lparr>button_text = (if str ''Tag3'' \<in> selected then SELECTED_PREFIX else []) @ str ''Tag3'',
        callback_data = str ''tag:Tag3''\<rparr>,
       \<lparr>button_text = (if str ''Tag4'' \<in> selected then SELECTED_PREFIX else []) @ str ''Tag4'',
        callback_data = str ''tag:Tag4''\<rparr>],
      [\<lparr>button_text = DONE_LABEL, callback_data = str ''done''\<rparr>]]"
    by (simp add: build_keyboard_rows tag_button_def done_button_def replace_char_def Let_def)
qed

theorem label_is_description_counterexample:
  "button_text (hd (hd (build_keyboard {}))) = str ''Tag1'' \<and>
   spec_label {} (hd TAGS) = str ''Desc 1'' \<and>
   button_text (hd (hd (build_keyboard {}))) \<noteq> spec_label {} (hd TAGS)"
  by (simp add: build_keyboard_rows tag_button_def replace_char_def spec_label_def TAGS_def Let_def)

text \<open>
  C7. The keyboard is a function of the catalog and the selected set alone, and of the
  selected set only through the membership of the catalog's keys: two selected sets
  that agree on those keys give the same layout. In the handlers the layout sent after
  a toggle is the keyboard of the set the dict then holds, which is the toggled set
  (rendering has not changed it), so two sessions with the same selected set, whatever
  their users, pending entries and histories, get the same layout for the same toggle;
  a new message sends the keyboard of the empty set it stores. \<open>build_keyboard\<close> only
  reads \<open>TAG_KEYS\<close> and its argument, which is why it is a function of them here.
\<close>

theorem keyboard_function_of_selection:
  assumes "\<forall>k \<in> set TAG_KEYS. (k \<in> s1) = (k \<in> s2)"
      and "pending_message (user_data c1) = Some p1"
      and "pending_message (user_data c2) = Some p2"
      and "get_selected_tags (user_data c1) = get_selected_tags (user_data c2)"
  shows "build_keyboard s1 = build_keyboard s2 \<and>
         last (sent (snd (button_handler uid1 (toggle_data t) ok1 c1))) =
           last (sent (snd (button_handler uid2 (toggle_data t) ok2 c2))) \<and>
         last (sent (snd (button_handler uid1 (toggle_data t) ok1 c1))) =
           EditMessageReplyMarkup (Some (build_keyboard
             (get_selected_tags (user_data (snd (button_handler uid1 (toggle_data t) ok1 c1)))))) \<and>
         get_selected_tags (user_data (snd (button_handler uid1 (toggle_data t) ok1 c1))) =
           (if t \<in> get_selected_tags (user_data c1)
            then get_selected_tags (user_data c1) - {t}
            else insert t (get_selected_tags (user_data c1))) \<and>
         last (sent (snd (handle_text uid1 un txt now c1))) =
           ReplyText (str ''This is the text that '' @ username_or_id un uid1 @ str '' sent:''
                        @ [10, 10] @ txt @ [10, 10] @ PROMPT)
             (build_keyboard (get_selected_tags (user_data (snd (handle_text uid1 un txt now c1)))))
             (str ''Markdown'')"
proof -
  have e: "(str ''Tag1'' \<in> s1) = (str ''Tag1'' \<in> s2)" "(str ''Tag2'' \<in> s1) = (str ''Tag2'' \<in> s2)"
      "(str ''Tag3'' \<in> s1) = (str ''Tag3'' \<in> s2)" "(str ''Tag4'' \<in> s1) = (str ''Tag4'' \<in> s2)"
    using assms(1) by (simp_all add: TAG_KEYS_def TAGS_def)
  have k: "build_keyboard s1 = build_keyboard s2"
    using e by (simp add: build_keyboard_rows tag_button_def)
  have t1: "last (sent (snd (button_handler uid1 (toggle_data t) ok1 c1))) =
           EditMessageReplyMarkup (Some (build_keyboard
             (get_selected_tags (user_data (snd (button_handler uid1 (toggle_data t) ok1 c1))))))"
    by (simp add: button_handler_toggle[OF assms(2)] get_selected_tags_def)
  have t2: "last (sent (snd (button_handler uid2 (toggle_data t) ok2 c2))) =
           EditMessageReplyMarkup (Some (build_keyboard
             (get_selected_tags (user_data (snd (button_handler uid2 (toggle_data t) ok2 c2))))))"
    by (simp add: button_handler_toggle[OF assms(3)] get_selected_tags_def)
  have s1: "get_selected_tags (user_data (snd (button_handler uid1 (toggle_data t) ok1 c1))) =
           (if t \<in> get_selected_tags (user_data c1)
            then get_selected_tags (user_data c1) - {t}
            else insert t (get_selected_tags (user_data c1)))"
    by (rule toggle_selected[OF assms(2)])
  have s2: "get_selected_tags (user_data (snd (button_handler uid2 (toggle_data t) ok2 c2))) =
           (if t \<in> get_selected_tags (user_data c1)
            then get_selected_tags (user_data c1) - {t}
            else insert t (get_selected_tags (user_data c1)))"
    unfolding assms(4) by (rule toggle_selected[OF assms(3)])
  have e: "last (sent (snd (button_handler uid1 (toggle_data t) ok1 c1))) =
           last (sent (snd (button_handler uid2 (toggle_data t) ok2 c2)))"
    unfolding t1 t2 s1 s2 ..
  have h: "last (sent (snd (handle_text uid1 un txt now c1))) =
           ReplyText (str ''This is the text that '' @ username_or_id un uid1 @ str '' sent:''
                        @ [10, 10] @ txt @ [10, 10] @ PROMPT)
             (build_keyboard (get_selected_tags (user_data (snd (handle_text uid1 un txt now c1)))))
             (str ''Markdown'')"
    by (simp add: handle_text_def Let_def get_selected_tags_def)
  from k e t1 s1 h show ?thesis by (intro conjI)
qed

theorem keyboard_function_of_selection_witness:
  "pending_message (user_data (snd (handle_text 7 None (str ''Hello world'') 1000 empty_ctx))) =
     Some \<lparr>pending_text = str ''Hello world'', pending_ts = 1000\<rparr> \<and>
   pending_message (user_data (snd (handle_text 8 (Some (str ''bob'')) (str ''Other'') 2000
       (empty_ctx\<lparr>sent := [AnswerCallbackQuery]\<rparr>)))) =
     Some \<lparr>pending_text = str ''Other'', pending_ts = 2000\<rparr> \<and>
   build_keyboard {str ''Tag1'', str ''other''} = build_keyboard {str ''Tag1''} \<and>
   last (sent (snd (button_handler 7 (toggle_data (str ''Tag2'')) True
       (snd (handle_text 7 None (str ''Hello world'') 1000 empty_ctx))))) =
   last (sent (snd (button_handler 8 (toggle_data (str ''Tag2'')) False
       (snd (handle_text 8 (Some (str ''bob'')) (str ''Other'') 2000
          (empty_ctx\<lparr>sent := [AnswerCallbackQuery]\<rparr>))))))"
proof -
  let ?a = "snd (handle_text 7 None (str ''Hello world'') 1000 empty_ctx)"
  let ?b = "snd (handle_text 8 (Some (str ''bob'')) (str ''Other'') 2000
          (empty_ctx\<lparr>sent := [AnswerCallbackQuery]\<rparr>))"
  have h: "\<forall>k \<in> set TAG_KEYS. (k \<in> {str ''Tag1'', str ''other''}) = (k \<in> {str ''Tag1''})"
    by (simp add: TAG_KEYS_def TAGS_def)
  have pa: "pending_message (user_data ?a) =
      Some \<lparr>pending_text = str ''Hello world'', pending_ts = 1000\<rparr>"
    by (simp only: handle_text_user_data user_data.simps)
  have pb: "pending_message (user_data ?b) = Some \<lparr>pending_text = str ''Other'', pending_ts = 2000\<rparr>"
    by (simp only: handle_text_user_data user_data.simps)
  have g: "get_selected_tags (user_data ?a) = get_selected_tags (user_data ?b)"
    by (simp add: handle_text_user_data get_selected_tags_def)
  note th = keyboard_function_of_selection[OF h pa pb g, of 7 "str ''Tag2''" True 8 False None "[]" 0]
  show ?thesis
    by (intro conjI) (rule pa pb th[THEN conjunct1] th[THEN conjunct2, THEN conjunct1])+
qed

text \<open>
  C8. When the transcription succeeds with text \<open>r\<close>, the pending text is \<open>strip r\<close>:
  \<open>r\<close> without a leading and a trailing run of whitespace, itself neither starting
  nor ending with whitespace. An empty transcription opens a session with the empty
  text. The dict, the table and the keyboard are those the text handler produces for
  \<open>strip r\<close>; the reply differs only in saying "transcription" for "text".
\<close>

theorem audio_transcript_trimmed:
  "fst (handle_audio uid un (Inr r) now c) = None \<and>
   pending_message (user_data (snd (handle_audio uid un (Inr r) now c))) =
     Some \<lparr>pending_text = strip r, pending_ts = now\<rparr> \<and>
   (\<exists>a b. r = a @ strip r @ b \<and> list_all is_whitespace a \<and> list_all is_whitespace b) \<and>
   (strip r \<noteq> [] \<longrightarrow> \<not> is_whitespace (hd (strip r)) \<and> \<not> is_whitespace (last (strip r))) \<and>
   user_data (snd (handle_audio uid un (Inr []) now c)) =
     \<lparr>pending_message = Some \<lparr>pending_text = [], pending_ts = now\<rparr>, selected_tags = Some {}\<rparr> \<and>
   user_data (snd (handle_audio uid un (Inr r) now c)) =
     user_data (snd (handle_text uid un (strip r) now c)) \<and>
   conn (snd (handle_audio uid un (Inr r) now c)) = conn (snd (handle_text uid un (strip r) now c)) \<and>
   sent (snd (handle_audio uid un (Inr r) now c)) =
     sent c @ [ReplyText (str ''This is the transcription that '' @ username_or_id un uid
                        @ str '' sent:'' @ [10, 10] @ strip r @ [10, 10] @ PROMPT)
                 (build_keyboard {}) (str ''Markdown'')] \<and>
   sent (snd (handle_text uid un (strip r) now c)) =
     sent c @ [ReplyText (str ''This is the text that '' @ username_or_id un uid
                        @ str '' sent:'' @ [10, 10] @ strip r @ [10, 10] @ PROMPT)
                 (build_keyboard {}) (str ''Markdown'')]"
proof -
  have dec: "\<exists>a b. r = a @ strip r @ b \<and> list_all is_whitespace a \<and> list_all is_whitespace b"
  proof (intro exI conjI)
    show "r = takeWhile is_whitespace r @ strip r @
       rev (takeWhile is_whitespace (rev (dropWhile is_whitespace r)))"
      by (rule strip_decomposition)
    show "list_all is_whitespace (takeWhile is_whitespace r)"
      by (rule list_all_takeWhile)
    show "list_all is_whitespace (rev (takeWhile is_whitespace (rev (dropWhile is_whitespace r))))"
      using list_all_takeWhile[of is_whitespace "rev (dropWhile is_whitespace r)"]
      by (simp add: list_all_iff)
  qed
  have ends: "strip r \<noteq> [] \<longrightarrow> \<not> is_whitespace (hd (strip r)) \<and> \<not> is_whitespace (last (strip r))"
    using strip_hd[of r] strip_last[of r] by blast
  have rest: "fst (handle_audio uid un (Inr r) now c) = None"
    "pending_message (user_data (snd (handle_audio uid un (Inr r) now c))) =
     Some \<lparr>pending_text = strip r, pending_ts = now\<rparr>"
    "user_data (snd (handle_audio uid un (Inr []) now c)) =
     \<lparr>pending_message = Some \<lparr>pending_text = [], pending_ts = now\<rparr>, selected_tags = Some {}\<rparr>"
    "user_data (snd (handle_audio uid un (Inr r) now c)) =
     user_data (snd (handle_text uid un (strip r) now c))"
    "conn (snd (handle_audio uid un (Inr r) now c)) = conn (snd (handle_text uid un (strip r) now c))"
    "sent (snd (handle_audio uid un (Inr r) now c)) =
     sent c @ [ReplyText (str ''This is the transcription that '' @ username_or_id un uid
                        @ str '' sent:'' @ [10, 10] @ strip r @ [10, 10] @ PROMPT)
                 (build_keyboard {}) (str ''Markdown'')]"
    "sent (snd (handle_text uid un (strip r) now c)) =
     sent c @ [ReplyText (str ''This is the text that '' @ username_or_id un uid
                        @ str '' sent:'' @ [10, 10] @ strip r @ [10, 10] @ PROMPT)
                 (build_keyboard {}) (str ''Markdown'')]"
    by (simp_all add: handle_audio_def handle_text_def transcribe_def Let_def strip_empty)
  from dec ends rest show ?thesis by (intro conjI)
qed

theorem audio_transcript_trimmed_witness:
  "strip ([32, 9] @ str ''hi  there'' @ [10, 160, 32]) = str ''hi  there'' \<and>
   pending_message (user_data (snd (handle_audio 7 None
       (Inr ([32, 9] @ str ''hi  there'' @ [10, 160, 32])) 1000 empty_ctx))) =
     Some \<lparr>pending_text = str ''hi  there'', pending_ts = 1000\<rparr> \<and>
   \<not> is_whitespace (hd (strip ([32, 9] @ str ''hi  there'' @ [10, 160, 32]))) \<and>
   \<not> is_whitespace (last (strip ([32, 9] @ str ''hi  there'' @ [10, 160, 32]))) \<and>
   user_data (snd (handle_audio 7 None (Inr []) 1000 empty_ctx)) =
     \<lparr>pending_message = Some \<lparr>pending_text = [], pending_ts = 1000\<rparr>, selected_tags = Some {}\<rparr>"
proof -
  let ?r = "[32, 9] @ str ''hi  there'' @ [10, 160, 32]"
  note th = audio_transcript_trimmed[of 7 None ?r 1000 empty_ctx]
  have 1: "strip ?r = str ''hi  there''" by (rule strip_example)
  have ne: "strip ?r \<noteq> []" unfolding 1 by simp
  have 2: "pending_message (user_data (snd (handle_audio 7 None (Inr ?r) 1000 empty_ctx))) =
     Some \<lparr>pending_text = str ''hi  there'', pending_ts = 1000\<rparr>"
    using th[THEN conjunct2, THEN conjunct1] unfolding 1 .
  have 3: "\<not> is_whitespace (hd (strip ?r)) \<and> \<not> is_whitespace (last (strip ?r))"
    using th[THEN conjunct2, THEN conjunct2, THEN conjunct2, THEN conjunct1] ne by (rule mp)
  have 4: "user_data (snd (handle_audio 7 None (Inr []) 1000 empty_ctx)) =
     \<lparr>pending_message = Some \<lparr>pending_text = [], pending_ts = 1000\<rparr>, selected_tags = Some {}\<rparr>"
    using th[THEN conjunct2, THEN conjunct2, THEN conjunct2, THEN conjunct2, THEN conjunct1] .
  show ?thesis
    by (intro conjI) (rule 1 2 conjunct1[OF 3] conjunct2[OF 3] 4)+
qed

text \<open>
  C9. When the insert fails while "done" is handled, the exception leaves the handler
  before the dict is cleared: the pending entry and the selected set are as before, no
  row is written, and a later "done" whose insert succeeds writes the row of that same
  session.
\<close>

theorem failed_store_keeps_session:
  assumes "pending_message (user_data c) = Some p"
  shows "button_handler uid (str ''done'') False c =
           (Some PersistenceError, c\<lparr>sent := sent c @ [AnswerCallbackQuery]\<rparr>) \<and>
         user_data (snd (button_handler uid (str ''done'') False c)) = user_data c \<and>
         conn (snd (button_handler uid (str ''done'') False c)) = conn c \<and>
         conn (snd (button_handler uid (str ''done'') True
                 (snd (button_handler uid (str ''done'') False c)))) =
           conn c @ [\<lparr>telegram_id = uid, row_ts = pending_ts p, row_text = pending_text p,
                      row_tags = get_selected_tags (user_data c)\<rparr>]"
proof -
  let ?c1 = "c\<lparr>sent := sent c @ [AnswerCallbackQuery]\<rparr>"
  have f: "button_handler uid (str ''done'') False c = (Some PersistenceError, ?c1)"
    using button_handler_done_fail[OF assms, of uid] .
  have p1: "pending_message (user_data ?c1) = Some p" using assms by simp
  show ?thesis
    using f button_handler_done_ok[OF p1, of uid] by simp
qed

theorem failed_store_keeps_session_witness:
  "pending_message (user_data (toggles 7 [str ''Tag2'']
       (snd (handle_text 7 None (str ''Hello world'') 1000 empty_ctx)))) =
     Some \<lparr>pending_text = str ''Hello world'', pending_ts = 1000\<rparr> \<and>
   fst (button_handler 7 (str ''done'') False (toggles 7 [str ''Tag2'']
       (snd (handle_text 7 None (str ''Hello world'') 1000 empty_ctx)))) = Some PersistenceError \<and>
   user_data (snd (button_handler 7 (str ''done'') False (toggles 7 [str ''Tag2'']
       (snd (handle_text 7 None (str ''Hello world'') 1000 empty_ctx))))) =
     \<lparr>pending_message = Some \<lparr>pending_text = str ''Hello world'', pending_ts = 1000\<rparr>,
      selected_tags = Some {str ''Tag2''}\<rparr> \<and>
   conn (snd (button_handler 7 (str ''done'') False (toggles 7 [str ''Tag2'']
       (snd (handle_text 7 None (str ''Hello world'') 1000 empty_ctx))))) = []"
proof -
  let ?b = "snd (handle_text 7 None (str ''Hello world'') 1000 empty_ctx)"
  let ?c = "toggles 7 [str ''Tag2''] ?b"
  have p0: "pending_message (user_data ?b) =
      Some \<lparr>pending_text = str ''Hello world'', pending_ts = 1000\<rparr>"
    by (simp only: handle_text_user_data user_data.simps)
  have ud: "user_data ?c = \<lparr>pending_message = Some \<lparr>pending_text = str ''Hello world'', pending_ts = 1000\<rparr>,
      selected_tags = Some {str ''Tag2''}\<rparr>"
    by (simp add: toggles_Cons toggles_Nil button_handler_toggle handle_text_user_data
        get_selected_tags_def)
  have p: "pending_message (user_data ?c) =
      Some \<lparr>pending_text = str ''Hello world'', pending_ts = 1000\<rparr>"
    by (simp only: ud user_data.simps)
  have kb: "conn ?b = []"
    by (simp add: handle_text_def empty_ctx_def Let_def)
  have k: "conn ?c = []"
    using toggles_conn[OF p0, of 7 "[str ''Tag2'']"] kb by simp
  from failed_store_keeps_session[OF p, of 7] ud k show ?thesis by simp
qed

text \<open>
  C10. A toggle with an active session raises nothing and leaves the pending entry (its
  text and its timestamp) and the table as they were; only the selected set changes.
  The same holds after any run of toggles.
\<close>

theorem toggle_keeps_pending:
  assumes "pending_message (user_data c) = Some p"
  shows "fst (button_handler uid (toggle_data t) ok c) = None \<and>
         pending_message (user_data (snd (button_handler uid (toggle_data t) ok c))) = Some p \<and>
         conn (snd (button_handler uid (toggle_data t) ok c)) = conn c \<and>
         selected_tags (user_data (snd (button_handler uid (toggle_data t) ok c))) =
           Some (if t \<in> get_selected_tags (user_data c)
                 then get_selected_tags (user_data c) - {t}
                 else insert t (get_selected_tags (user_data c))) \<and>
         pending_message (user_data (toggles uid ts c)) = Some p"
  using assms by (simp add: button_handler_toggle[OF assms] toggles_pending[OF assms])

theorem toggle_keeps_pending_witness:
  "pending_message (user_data (snd (handle_text 7 None (str ''Hello world'') 1000 empty_ctx))) =
     Some \<lparr>pending_text = str ''Hello world'', pending_ts = 1000\<rparr> \<and>
   pending_message (user_data (snd (button_handler 7 (toggle_data (str ''Tag1'')) True
       (snd (handle_text 7 None (str ''Hello world'') 1000 empty_ctx))))) =
     Some \<lparr>pending_text = str ''Hello world'', pending_ts = 1000\<rparr> \<and>
   selected_tags (user_data (snd (button_handler 7 (toggle_data (str ''Tag1'')) True
       (snd (handle_text 7 None (str ''Hello world'') 1000 empty_ctx))))) = Some {str ''Tag1''}"
proof -
  let ?c = "snd (handle_text 7 None (str ''Hello world'') 1000 empty_ctx)"
  have p: "pending_message (user_data ?c) =
      Some \<lparr>pending_text = str ''Hello world'', pending_ts = 1000\<rparr>"
    by (simp only: handle_text_user_data user_data.simps)
  have g: "get_selected_tags (user_data ?c) = {}"
    by (simp add: handle_text_user_data get_selected_tags_def)
  from toggle_keeps_pending[OF p, of 7 "str ''Tag1''" True "[]"] p g show ?thesis by simp
qed

end
